theory Spec2Isabelle
  imports Complex_Main "HOL-Library.Sublist"
begin

section \<open>Shared data model\<close>

text \<open>
  Exceptions of the Python source are values.  Only the classes that the modelled code
  raises or catches by name are distinguished; every other exception is \<open>OtherException\<close>
  with its message.
\<close>

datatype exn =
    TypeError
  | KeyError
  | IndexError
  | AttributeError
  | UnknownResourceType
  | OtherException string

text \<open>
  An AIM resource object: the name of its class, its identity attributes in the order of
  the class attribute \<open>identity_attributes\<close> (attribute name paired with the value that
  \<open>getattr\<close> reads), and its remaining attributes.
\<close>

record resource =
  res_klass :: string
  res_identity :: "(string \<times> string) list"
  res_other :: "(string \<times> string) list"

text \<open>A fault object (\<open>aim_status.AciFault\<close>): only the two attributes the code reads.\<close>

record aci_fault =
  fault_code :: string
  external_identifier :: string

text \<open>An object in the controller's wire format: \<open>{aci_type: {'attributes': {...}}}\<close>.\<close>

record aci_object =
  aci_type :: string
  aci_attributes :: "(string \<times> string) list"

text \<open>The objects that travel through the universes.\<close>

datatype pyobj =
    Resource resource
  | AciFault aci_fault
  | AciObject aci_object

text \<open>
  The AIM manager is an external collaborator.  The model keeps the list of the calls it
  has received, oldest first, as a test double would.
\<close>

datatype mgr_call =
    SetResourceSyncSynced resource
  | SetResourceSyncError resource string
  | PerformHarakiri string
  | Create pyobj
  | Delete pyobj
  | SetFault pyobj pyobj
  | ClearFault pyobj pyobj

type_synonym tenant = string
type_synonym aim_id = "string \<times> string list"
type_synonym conf = "string \<Rightarrow> string \<Rightarrow> int"

text \<open>Values handed to \<open>initialize\<close>.\<close>

datatype pyval =
    StoreObj string
  | ConfObj conf
  | NoneObj

section \<open>HashTreeStoredUniverse: instance data\<close>

text \<open>
  The fields that \<open>HashTreeStoredUniverse.initialize\<close> sets.  \<open>manager\<close> holds the calls
  the manager has received.  The failure log maps an object identifier to the pair
  (failure count, time of the last counted failure); the time is a Python float or
  \<open>None\<close>, modelled as an optional real number (rounding is not modelled).
  \<open>error_handlers\<close> is the fixed dispatch of \<open>fail_aim_synchronization\<close> below.
\<close>

record 't universe =
  aim_context :: pyval
  manager :: "mgr_call list"
  conf_manager :: conf
  u_state :: "(tenant \<times> 't) list"
  failure_log :: "aim_id \<rightharpoonup> (int \<times> real option)"
  max_create_retry :: int
  retry_cooldown :: int

datatype error_kind =
    OPERATION_TRANSIENT
  | UNKNOWN
  | OPERATION_CRITICAL
  | SYSTEM_CRITICAL
  | UnregisteredError string

section \<open>Failure ledger\<close>

definition get_aim_object_identifier :: "resource \<Rightarrow> aim_id" where
  "get_aim_object_identifier aim_object =
     (res_klass aim_object, map snd (res_identity aim_object))"

text \<open>
  Python truthiness of the stored time stamp: \<open>None\<close> and \<open>0.0\<close> are both false.
\<close>

definition py_not_last :: "real option \<Rightarrow> bool" where
  "py_not_last last_ts = (case last_ts of None \<Rightarrow> True | Some l \<Rightarrow> l = 0)"

text \<open>
  \<open>_retry_until_max\<close>; \<open>curr_time\<close> is the value \<open>time.time()\<close> returns during the call.
\<close>

definition retry_until_max ::
  "'t universe \<Rightarrow> real \<Rightarrow> resource \<Rightarrow> string \<Rightarrow> string \<Rightarrow> 't universe" where
  "retry_until_max self curr_time aim_object operation reason =
     (let aim_id = get_aim_object_identifier aim_object;
          (failures, last_ts) =
            (case failure_log self aim_id of None \<Rightarrow> (0, None) | Some r \<Rightarrow> r)
      in if py_not_last last_ts \<or>
            (case last_ts of None \<Rightarrow> False
             | Some l \<Rightarrow> curr_time - l \<ge> real_of_int (retry_cooldown self))
         then
           (let self1 = self\<lparr>failure_log :=
                  (failure_log self)(aim_id \<mapsto> (failures + 1, Some curr_time))\<rparr>
            in if failures + 1 \<ge> max_create_retry self1
               then self1\<lparr>manager := manager self1 @ [SetResourceSyncError aim_object reason],
                          failure_log := (failure_log self1)(aim_id := None)\<rparr>
               else self1)
         else self)"

definition surrender_operation ::
  "'t universe \<Rightarrow> real \<Rightarrow> resource \<Rightarrow> string \<Rightarrow> string \<Rightarrow> 't universe" where
  "surrender_operation self curr_time aim_object operation reason =
     (let aim_id = get_aim_object_identifier aim_object
      in self\<lparr>manager := manager self @ [SetResourceSyncError aim_object reason],
               failure_log := (failure_log self)(aim_id := None)\<rparr>)"

definition fail_agent ::
  "'t universe \<Rightarrow> real \<Rightarrow> resource \<Rightarrow> string \<Rightarrow> string \<Rightarrow> 't universe" where
  "fail_agent self curr_time aim_object operation reason =
     self\<lparr>manager := manager self @ [PerformHarakiri reason]\<rparr>"

definition noop ::
  "'t universe \<Rightarrow> real \<Rightarrow> resource \<Rightarrow> string \<Rightarrow> string \<Rightarrow> 't universe" where
  "noop self curr_time aim_object operation reason = self"

text \<open>\<open>self.error_handlers.get(error, self._noop)\<close>.\<close>

fun error_handlers ::
  "error_kind \<Rightarrow> 't universe \<Rightarrow> real \<Rightarrow> resource \<Rightarrow> string \<Rightarrow> string \<Rightarrow> 't universe" where
  "error_handlers OPERATION_TRANSIENT = retry_until_max"
| "error_handlers UNKNOWN = retry_until_max"
| "error_handlers OPERATION_CRITICAL = surrender_operation"
| "error_handlers SYSTEM_CRITICAL = fail_agent"
| "error_handlers (UnregisteredError e) = noop"

definition fail_aim_synchronization ::
  "'t universe \<Rightarrow> real \<Rightarrow> resource \<Rightarrow> string \<Rightarrow> string \<Rightarrow> error_kind \<Rightarrow> 't universe" where
  "fail_aim_synchronization self curr_time aim_object operation reason error =
     error_handlers error self curr_time aim_object operation reason"

definition creation_failed ::
  "'t universe \<Rightarrow> real \<Rightarrow> resource \<Rightarrow> string \<Rightarrow> error_kind \<Rightarrow> 't universe" where
  "creation_failed self curr_time aim_object reason error =
     fail_aim_synchronization self curr_time aim_object ''creation'' reason error"


definition creation_succeeded :: "'t universe \<Rightarrow> resource \<Rightarrow> 't universe" where
  "creation_succeeded self aim_object =
     (let aim_id = get_aim_object_identifier aim_object
      in self\<lparr>failure_log := (failure_log self)(aim_id := None),
               manager := manager self @ [SetResourceSyncSynced aim_object]\<rparr>)"

text \<open>Successive \<open>creation_failed\<close> calls with a transient error, one per time in the list.\<close>

fun creation_failed_at ::
  "'t universe \<Rightarrow> resource \<Rightarrow> string \<Rightarrow> real list \<Rightarrow> 't universe" where
  "creation_failed_at self aim_object reason [] = self"
| "creation_failed_at self aim_object reason (t # ts) =
     creation_failed_at (creation_failed self t aim_object reason OPERATION_TRANSIENT)
       aim_object reason ts"

text \<open>A fresh universe with \<open>max_operation_retry = 3\<close> and \<open>retry_cooldown = 10\<close>.\<close>

definition scenario_universe :: "unit universe" where
  "scenario_universe =
     \<lparr>aim_context = NoneObj, manager = [], conf_manager = (\<lambda>opt grp. 0), u_state = [],
      failure_log = Map.empty, max_create_retry = 3, retry_cooldown = 10\<rparr>"

definition scenario_object :: resource where
  "scenario_object =
     \<lparr>res_klass = ''BridgeDomain'',
      res_identity = [(''tenant_name'', ''t1''), (''name'', ''bd1'')],
      res_other = []\<rparr>"

text \<open>The same universe with a record of the object that carries the time stamp 0.\<close>

definition zero_stamp_universe :: "unit universe" where
  "zero_stamp_universe =
     scenario_universe\<lparr>failure_log :=
       [get_aim_object_identifier scenario_object \<mapsto> (1, Some 0)]\<rparr>"

section \<open>Initialization\<close>

text \<open>
  A method call passes its positional arguments as a list; a call whose number of
  arguments does not fit the signature raises \<open>TypeError\<close>, as Python does.

  \<open>HashTreeStoredUniverse.initialize(self, store, conf_mgr)\<close>.  The call to the abstract
  base method does nothing.  Reading an option from something that is not a configuration
  manager raises \<open>AttributeError\<close>.
\<close>

definition HashTreeStoredUniverse_initialize ::
  "('t, 'z) universe_scheme \<Rightarrow> pyval list \<Rightarrow> exn + ('t, 'z) universe_scheme" where
  "HashTreeStoredUniverse_initialize self args =
     (case args of
        [store, conf_mgr] \<Rightarrow>
          (case conf_mgr of
             ConfObj c \<Rightarrow>
               Inr (self\<lparr>aim_context := store, manager := [], conf_manager := c,
                          u_state := [], failure_log := Map.empty,
                          max_create_retry := c ''max_operation_retry'' ''aim'',
                          retry_cooldown := c ''retry_cooldown'' ''aim''\<rparr>)
           | _ \<Rightarrow> Inl AttributeError)
      | _ \<Rightarrow> Inl TypeError)"

text \<open>
  \<open>AimDbUniverse\<close> adds the set of served tenants, kept as a duplicate-free list.  The
  tree manager and the converter are external and enter the operations below as
  parameters.
\<close>

record 't aimdb_universe = "'t universe" +
  served_tenants :: "tenant list"

text \<open>
  \<open>AimDbUniverse.initialize(self, db_session)\<close>: one parameter besides \<open>self\<close>, and a
  call of the parent's \<open>initialize\<close> with that one argument.
\<close>

definition AimDbUniverse_initialize ::
  "'t aimdb_universe \<Rightarrow> pyval list \<Rightarrow> exn + 't aimdb_universe" where
  "AimDbUniverse_initialize self args =
     (case args of
        [db_session] \<Rightarrow>
          (case HashTreeStoredUniverse_initialize self [db_session] of
             Inl e \<Rightarrow> Inl e
           | Inr self1 \<Rightarrow> Inr (self1\<lparr>aim_context := db_session, served_tenants := []\<rparr>))
      | _ \<Rightarrow> Inl TypeError)"

definition serve :: "'t aimdb_universe \<Rightarrow> tenant list \<Rightarrow> 't aimdb_universe" where
  "serve self tenants = self\<lparr>served_tenants := remdups tenants\<rparr>"

section \<open>Hash trees and universes as objects\<close>

text \<open>
  The hash-tree library is not part of the sources; its operations are parameters.
  \<open>tl_has_root\<close> is the truth value of \<open>tree.root\<close>, \<open>tl_root_dummy\<close> reads
  \<open>tree.root.dummy\<close>, \<open>tl_root_full_hash\<close> reads \<open>tree.root_full_hash\<close> and is \<open>None\<close>
  when that read raises \<open>AttributeError\<close>, \<open>tl_empty\<close> is \<open>StructuredHashTree()\<close>, and
  \<open>tl_diff tree other\<close> is \<open>tree.diff(other)\<close> as the pair (add, remove).
\<close>

type_synonym key = "string list"

record 't tree_lib =
  tl_diff :: "'t \<Rightarrow> 't \<Rightarrow> key list \<times> key list"
  tl_has_root :: "'t \<Rightarrow> bool"
  tl_root_dummy :: "'t \<Rightarrow> bool"
  tl_root_full_hash :: "'t \<Rightarrow> string option"
  tl_empty :: "'t"

text \<open>
  What \<open>push_resources\<close> receives: the hydrated \<open>create\<close> and \<open>delete\<close> entries.  A
  hydration method returns a list of objects or \<open>None\<close>.
\<close>

record batch =
  create :: "pyobj list option"
  delete :: "pyobj list option"

text \<open>
  A universe as the reconciler sees it: its identity (the element it adds to a vote
  set), the value of its \<open>state\<close> property, and the overridable methods.
  \<open>m_push_resources\<close> tells whether the call raises.
\<close>

record 't universe_obj =
  m_id :: nat
  m_state :: "(tenant \<times> 't) list"
  m_get_optimized_state :: "(tenant \<times> 't) list \<Rightarrow> (tenant \<times> 't) list"
  m_get_resources :: "key list \<Rightarrow> exn + pyobj list option"
  m_get_resources_for_delete :: "key list \<Rightarrow> exn + pyobj list option"
  m_push_resources :: "batch \<Rightarrow> exn option"

text \<open>The single-key methods of \<open>HashTreeStoredUniverse\<close>, and its empty default.\<close>

definition get_resource :: "'t universe_obj \<Rightarrow> key \<Rightarrow> exn + pyobj list option" where
  "get_resource self resource_key = m_get_resources self [resource_key]"

definition get_resource_for_delete :: "'t universe_obj \<Rightarrow> key \<Rightarrow> exn + pyobj list option" where
  "get_resource_for_delete self resource_key = m_get_resources_for_delete self [resource_key]"

definition HashTreeStoredUniverse_get_resources_for_delete ::
  "key list \<Rightarrow> exn + pyobj list option" where
  "HashTreeStoredUniverse_get_resources_for_delete resource_keys = Inr None"

section \<open>Reconciliation\<close>

type_synonym votes = "tenant \<rightharpoonup> nat set"

definition vote_tenant_for_deletion :: "nat \<Rightarrow> tenant \<Rightarrow> votes \<Rightarrow> votes" where
  "vote_tenant_for_deletion self_id tenant delete_candidates =
     delete_candidates(tenant \<mapsto>
       insert self_id (case delete_candidates tenant of None \<Rightarrow> {} | Some v \<Rightarrow> v))"

text \<open>\<open>delete_candidates.get(tenant, set()).discard(self)\<close>.\<close>

definition discard_vote :: "nat \<Rightarrow> tenant \<Rightarrow> votes \<Rightarrow> votes" where
  "discard_vote self_id tenant delete_candidates =
     (case delete_candidates tenant of
        None \<Rightarrow> delete_candidates
      | Some v \<Rightarrow> delete_candidates(tenant \<mapsto> v - {self_id}))"

text \<open>\<open>my_state.get(tenant, structured_tree.StructuredHashTree())\<close>.\<close>

definition state_get :: "'t tree_lib \<Rightarrow> (tenant \<times> 't) list \<Rightarrow> tenant \<Rightarrow> 't" where
  "state_get lib my_state tenant =
     (case map_of my_state tenant of None \<Rightarrow> tl_empty lib | Some tree \<Rightarrow> tree)"

text \<open>
  The first loop of \<open>_reconcile\<close>.  Python enumerates the intersection of the two key
  sets in an order of its own; \<open>tenants\<close> is that enumeration.
\<close>

fun diff_loop ::
  "'t tree_lib \<Rightarrow> (tenant \<times> 't) list \<Rightarrow> (tenant \<times> 't) list \<Rightarrow> tenant list \<Rightarrow>
   key list \<times> key list \<Rightarrow> exn + key list \<times> key list" where
  "diff_loop lib my_state other_state [] result = Inr result"
| "diff_loop lib my_state other_state (tenant # tenants) result =
     (case map_of other_state tenant of
        None \<Rightarrow> Inl KeyError
      | Some tree \<Rightarrow>
          (let my_tenant_state = state_get lib my_state tenant;
               difference = tl_diff lib tree my_tenant_state
           in diff_loop lib my_state other_state tenants
                (fst result @ fst difference, snd result @ snd difference)))"

text \<open>The second loop: one pass over the items of \<open>my_state\<close>.\<close>

fun vote_loop ::
  "'t tree_lib \<Rightarrow> nat \<Rightarrow> bool \<Rightarrow> bool \<Rightarrow> (tenant \<times> 't) list \<Rightarrow> (tenant \<times> 't) list \<Rightarrow>
   votes \<Rightarrow> votes" where
  "vote_loop lib self_id skip_dummy always_vote_deletion other_state [] dc = dc"
| "vote_loop lib self_id skip_dummy always_vote_deletion other_state ((tenant, tree) # rest) dc =
     (if always_vote_deletion \<or>
         (skip_dummy \<and> (if tl_has_root lib tree then tl_root_dummy lib tree else True))
      then vote_loop lib self_id skip_dummy always_vote_deletion other_state rest
             (vote_tenant_for_deletion self_id tenant dc)
      else if tl_has_root lib tree
      then vote_loop lib self_id skip_dummy always_vote_deletion other_state rest dc
      else (case map_of other_state tenant of
              None \<Rightarrow>
                vote_loop lib self_id skip_dummy always_vote_deletion other_state rest
                  (vote_tenant_for_deletion self_id tenant dc)
            | Some other_tree \<Rightarrow>
                if tl_has_root lib other_tree
                then vote_loop lib self_id skip_dummy always_vote_deletion other_state rest
                       (discard_vote self_id tenant dc)
                else vote_loop lib self_id skip_dummy always_vote_deletion other_state rest
                       (vote_tenant_for_deletion self_id tenant dc)))"

text \<open>
  What one \<open>_reconcile\<close> call leaves behind: the vote map, the \<open>push_resources\<close> calls it
  made, and its return value or the exception that ended it.
\<close>

record outcome =
  votes_after :: votes
  pushed :: "batch list"
  returned :: "exn + bool"

definition reconcile_core ::
  "'t tree_lib \<Rightarrow> 't universe_obj \<Rightarrow> 't universe_obj \<Rightarrow> votes \<Rightarrow> tenant list \<Rightarrow>
   bool \<Rightarrow> bool \<Rightarrow> outcome" where
  "reconcile_core lib self other_universe delete_candidates tenants
       skip_dummy always_vote_deletion =
     (let my_state = m_state self;
          other_state = m_get_optimized_state other_universe my_state
      in case diff_loop lib my_state other_state tenants ([], []) of
           Inl e \<Rightarrow> \<lparr>votes_after = delete_candidates, pushed = [], returned = Inl e\<rparr>
         | Inr result \<Rightarrow>
             (let dc = vote_loop lib (m_id self) skip_dummy always_vote_deletion
                         other_state my_state delete_candidates
              in if fst result = [] \<and> snd result = []
                 then \<lparr>votes_after = dc, pushed = [], returned = Inr False\<rparr>
                 else
                   (case m_get_resources other_universe (fst result) of
                      Inl e \<Rightarrow> \<lparr>votes_after = dc, pushed = [], returned = Inl e\<rparr>
                    | Inr created \<Rightarrow>
                        (case m_get_resources_for_delete self (snd result) of
                           Inl e \<Rightarrow> \<lparr>votes_after = dc, pushed = [], returned = Inl e\<rparr>
                         | Inr deleted \<Rightarrow>
                             (let b = \<lparr>create = created, delete = deleted\<rparr>
                              in case m_push_resources self b of
                                   Some e \<Rightarrow>
                                     \<lparr>votes_after = dc, pushed = [b], returned = Inl e\<rparr>
                                 | None \<Rightarrow>
                                     \<lparr>votes_after = dc, pushed = [b], returned = Inr True\<rparr>)))))"

text \<open>\<open>reconcile\<close> calls \<open>_reconcile\<close> with both flags at their default \<open>False\<close>.\<close>

definition reconcile ::
  "'t tree_lib \<Rightarrow> 't universe_obj \<Rightarrow> 't universe_obj \<Rightarrow> votes \<Rightarrow> tenant list \<Rightarrow> outcome" where
  "reconcile lib self other_universe delete_candidates tenants =
     reconcile_core lib self other_universe delete_candidates tenants False False"

text \<open>
  The difference computed for one tenant of the intersection: the other universe's tree
  against the own one, as the pair (add, remove).
\<close>

definition tenant_diff ::
  "'t tree_lib \<Rightarrow> (tenant \<times> 't) list \<Rightarrow> (tenant \<times> 't) list \<Rightarrow> tenant \<Rightarrow> key list \<times> key list" where
  "tenant_diff lib my_state other_state tenant =
     (case map_of other_state tenant of
        None \<Rightarrow> ([], [])
      | Some tree \<Rightarrow> tl_diff lib tree (state_get lib my_state tenant))"

text \<open>The universes that have voted for a tenant: the empty set when it has no entry.\<close>

definition votes_of :: "votes \<Rightarrow> tenant \<Rightarrow> nat set" where
  "votes_of dc tenant = (case dc tenant of None \<Rightarrow> {} | Some v \<Rightarrow> v)"

text \<open>
  The other side of a tenant is absent or empty: \<open>tenant not in other_state or not
  other_state[tenant].root\<close>.
\<close>

definition other_absent_or_empty :: "'t tree_lib \<Rightarrow> (tenant \<times> 't) list \<Rightarrow> tenant \<Rightarrow> bool" where
  "other_absent_or_empty lib other_state tenant =
     (case map_of other_state tenant of
        None \<Rightarrow> True
      | Some other_tree \<Rightarrow> (if tl_has_root lib other_tree then False else True))"

text \<open>
  A small tree library for examples: a tree is the list of its keys, it has a root when
  the list is not empty, and the difference is taken key by key.
\<close>

definition demo_lib :: "key list tree_lib" where
  "demo_lib =
     \<lparr>tl_diff = (\<lambda>tree other. (filter (\<lambda>k. k \<notin> set other) tree,
                                filter (\<lambda>k. k \<notin> set tree) other)),
      tl_has_root = (\<lambda>tree. tree \<noteq> []),
      tl_root_dummy = (\<lambda>tree. False),
      tl_root_full_hash = (\<lambda>tree. if tree = [] then None else Some (concat (concat tree))),
      tl_empty = []\<rparr>"

definition demo_hydrate :: "key list \<Rightarrow> exn + pyobj list option" where
  "demo_hydrate ks =
     Inr (Some (map (\<lambda>k. AciObject \<lparr>aci_type = concat k, aci_attributes = []\<rparr>) ks))"

definition demo_universe :: "nat \<Rightarrow> (tenant \<times> key list) list \<Rightarrow> key list universe_obj" where
  "demo_universe i st =
     \<lparr>m_id = i, m_state = st, m_get_optimized_state = (\<lambda>other_state. st),
      m_get_resources = demo_hydrate,
      m_get_resources_for_delete = HashTreeStoredUniverse_get_resources_for_delete,
      m_push_resources = (\<lambda>b. None)\<rparr>"

definition bd_key :: key where
  "bd_key = [''fvTenant|t1'', ''fvBD|bd1'']"

section \<open>Key dissection\<close>

text \<open>\<open>s.find(c)\<close>: the index of the first occurrence, or -1.\<close>

fun py_find :: "string \<Rightarrow> char \<Rightarrow> int" where
  "py_find [] c = - 1"
| "py_find (x # xs) c =
     (if x = c then 0 else (let r = py_find xs c in if r < 0 then - 1 else r + 1))"

text \<open>\<open>s[:i]\<close> and \<open>s[i:]\<close>; a negative index counts from the end.\<close>

definition py_slice_to :: "string \<Rightarrow> int \<Rightarrow> string" where
  "py_slice_to s i = (if i < 0 then take (nat (int (length s) + i)) s else take (nat i) s)"

definition py_slice_from :: "string \<Rightarrow> int \<Rightarrow> string" where
  "py_slice_from s i = (if i < 0 then drop (nat (int (length s) + i)) s else drop (nat i) s)"

text \<open>\<open>_dissect_key\<close>; \<open>key[-1]\<close> of an empty key raises \<open>IndexError\<close>.\<close>

definition dissect_key :: "key \<Rightarrow> exn + string \<times> string list" where
  "dissect_key k =
     (if k = [] then Inl IndexError
      else Inr (py_slice_to (last k) (py_find (last k) CHR ''|''),
                map (\<lambda>x. py_slice_from x (py_find x CHR ''|'' + 1)) k))"

section \<open>AimDbUniverse: hydrating keys\<close>

text \<open>
  The collaborators of \<open>get_resources\<close> are parameters: the entry
  \<open>converter.resource_map[aci_type][0]['resource']\<close> as a class (its name and its
  \<open>identity_attributes\<close>), and the manager's \<open>get\<close> and \<open>get_status\<close>, each returning an
  object, \<open>None\<close>, or raising.  A status is given by its list of faults.
\<close>

record klass_info =
  klass_name :: string
  klass_identity_attributes :: "string list"

record aim_env =
  resource_map :: "string \<rightharpoonup> klass_info"
  manager_get :: "resource \<Rightarrow> exn + pyobj option"
  manager_get_status :: "resource \<Rightarrow> exn + aci_fault list option"

definition ACI_FAULT :: string where
  "ACI_FAULT = ''faultInst''"

text \<open>
  \<open>[(y, dissected[1][x]) for x, y in enumerate(klass.identity_attributes)]\<close>: an index
  beyond the dissected identity raises \<open>IndexError\<close>.
\<close>

fun identity_args :: "string list \<Rightarrow> string list \<Rightarrow> exn + (string \<times> string) list" where
  "identity_args [] vs = Inr []"
| "identity_args (a # as) [] = Inl IndexError"
| "identity_args (a # as) (v # vs) =
     (case identity_args as vs of Inl e \<Rightarrow> Inl e | Inr r \<Rightarrow> Inr ((a, v) # r))"

text \<open>
  An identity tuple holds pairs (attribute, value); for a fault key the two strings
  \<open>'fault'\<close> and the fault code are appended.
\<close>

datatype id_elem = IdPair string string | IdStr string

text \<open>Truth value of \<open>fault_code\<close>: \<open>None\<close> and the empty string are false.\<close>

definition fault_code_set :: "string option \<Rightarrow> bool" where
  "fault_code_set fc = (case fc of None \<Rightarrow> False | Some c \<Rightarrow> c \<noteq> [])"

record key_info =
  ki_res :: resource
  ki_fault_code :: "string option"
  ki_id_tuple :: "id_elem list"
  ki_dissected :: "string \<times> string list"

text \<open>The part of the loop body before the membership test, for one key.\<close>

definition key_identity :: "aim_env \<Rightarrow> key \<Rightarrow> exn + key_info" where
  "key_identity env k =
     (case dissect_key k of
        Inl e \<Rightarrow> Inl e
      | Inr d0 \<Rightarrow>
          (case (if fst d0 = ACI_FAULT
                 then (case dissect_key (butlast k) of
                         Inl e \<Rightarrow> Inl e
                       | Inr d1 \<Rightarrow> Inr (Some (last (snd d0)), d1))
                 else Inr (None, d0)) of
             Inl e \<Rightarrow> Inl e
           | Inr (fc, dissected) \<Rightarrow>
               (case resource_map env (fst dissected) of
                  None \<Rightarrow> Inl KeyError
                | Some klass \<Rightarrow>
                    (case identity_args (klass_identity_attributes klass) (snd dissected) of
                       Inl e \<Rightarrow> Inl e
                     | Inr ident \<Rightarrow>
                         Inr \<lparr>ki_res = \<lparr>res_klass = klass_name klass, res_identity = ident,
                                          res_other = []\<rparr>,
                              ki_fault_code = fc,
                              ki_id_tuple = map (\<lambda>(x, v). IdPair x v) ident @
                                (if fault_code_set fc
                                 then [IdStr ''fault'', IdStr (the fc)] else []),
                              ki_dissected = dissected\<rparr>))))"

text \<open>The body of the \<open>try\<close> up to the value of \<open>res_db\<close>.\<close>

definition lookup_resource :: "aim_env \<Rightarrow> resource \<Rightarrow> string option \<Rightarrow> exn + pyobj option" where
  "lookup_resource env res fc =
     (if fault_code_set fc
      then (case manager_get_status env res of
              Inl e \<Rightarrow> Inl e
            | Inr None \<Rightarrow> Inr None
            | Inr (Some faults) \<Rightarrow>
                Inr (map_option AciFault (find (\<lambda>f. fault_code f = the fc) faults)))
      else manager_get env res)"

text \<open>
  The state of the loop: the result list, the set of identity tuples, and the warnings
  logged (each with the dissected key).
\<close>

record hydration =
  h_result :: "pyobj list"
  h_id_set :: "id_elem list set"
  h_warnings :: "(string \<times> string list) list"

definition get_resources_step :: "aim_env \<Rightarrow> key \<Rightarrow> hydration \<Rightarrow> exn + hydration" where
  "get_resources_step env k st =
     (case key_identity env k of
        Inl e \<Rightarrow> Inl e
      | Inr ki \<Rightarrow>
          if ki_id_tuple ki \<in> h_id_set st then Inr st
          else (case lookup_resource env (ki_res ki) (ki_fault_code ki) of
                  Inr (Some res_db) \<Rightarrow>
                    Inr (st\<lparr>h_result := h_result st @ [res_db],
                            h_id_set := insert (ki_id_tuple ki) (h_id_set st)\<rparr>)
                | Inr None \<Rightarrow> Inr st
                | Inl e \<Rightarrow>
                    if e = UnknownResourceType
                    then Inr (st\<lparr>h_result := h_result st @ [Resource (ki_res ki)],
                                 h_id_set := insert (ki_id_tuple ki) (h_id_set st),
                                 h_warnings := h_warnings st @ [ki_dissected ki]\<rparr>)
                    else Inl e))"

fun get_resources_loop :: "aim_env \<Rightarrow> key list \<Rightarrow> hydration \<Rightarrow> exn + hydration" where
  "get_resources_loop env [] st = Inr st"
| "get_resources_loop env (k # ks) st =
     (case get_resources_step env k st of
        Inl e \<Rightarrow> Inl e
      | Inr st' \<Rightarrow> get_resources_loop env ks st')"

definition hydration_start :: hydration where
  "hydration_start = \<lparr>h_result = [], h_id_set = {}, h_warnings = []\<rparr>"

definition AimDbUniverse_get_resources :: "aim_env \<Rightarrow> key list \<Rightarrow> exn + pyobj list" where
  "AimDbUniverse_get_resources env resource_keys =
     (case get_resources_loop env resource_keys hydration_start of
        Inl e \<Rightarrow> Inl e
      | Inr st \<Rightarrow> Inr (h_result st))"

definition AimDbUniverse_get_resources_for_delete ::
  "aim_env \<Rightarrow> key list \<Rightarrow> exn + pyobj list" where
  "AimDbUniverse_get_resources_for_delete env resource_keys =
     AimDbUniverse_get_resources env resource_keys"

text \<open>
  What a key contributes when it is the first with its identity tuple: the object found,
  the identity-only object when the manager does not know the type, or nothing.
\<close>

definition key_object :: "aim_env \<Rightarrow> key \<Rightarrow> pyobj option" where
  "key_object env k =
     (case key_identity env k of
        Inl e \<Rightarrow> None
      | Inr ki \<Rightarrow>
          (case lookup_resource env (ki_res ki) (ki_fault_code ki) of
             Inr r \<Rightarrow> r
           | Inl e \<Rightarrow> if e = UnknownResourceType then Some (Resource (ki_res ki)) else None))"

definition key_id_tuple :: "aim_env \<Rightarrow> key \<Rightarrow> id_elem list option" where
  "key_id_tuple env k =
     (case key_identity env k of Inl e \<Rightarrow> None | Inr ki \<Rightarrow> Some (ki_id_tuple ki))"

text \<open>
  Every key of a batch is handled: it dissects to a class of the resource map with
  enough identity values, and the manager raises nothing but \<open>UnknownResourceType\<close>.
\<close>

definition key_handled :: "aim_env \<Rightarrow> key \<Rightarrow> bool" where
  "key_handled env k =
     (case key_identity env k of
        Inl e \<Rightarrow> False
      | Inr ki \<Rightarrow>
          (case lookup_resource env (ki_res ki) (ki_fault_code ki) of
             Inl e \<Rightarrow> e = UnknownResourceType
           | Inr r \<Rightarrow> True))"

text \<open>
  An example environment: three classes in the resource map; the manager does not know
  \<open>BridgeDomain\<close> and returns every other object with a display name; every status
  carries the one fault F0123.
\<close>

definition demo_env :: aim_env where
  "demo_env =
     \<lparr>resource_map =
        [''fvTenant'' \<mapsto> \<lparr>klass_name = ''Tenant'', klass_identity_attributes = [''name'']\<rparr>,
         ''fvBD'' \<mapsto> \<lparr>klass_name = ''BridgeDomain'',
                        klass_identity_attributes = [''tenant_name'', ''name'']\<rparr>,
         ''fvCtx'' \<mapsto> \<lparr>klass_name = ''VRF'',
                         klass_identity_attributes = [''tenant_name'', ''name'']\<rparr>],
      manager_get =
        (\<lambda>r. if res_klass r = ''BridgeDomain'' then Inl UnknownResourceType
              else Inr (Some (Resource (r\<lparr>res_other := [(''display_name'', ''shown'')]\<rparr>)))),
      manager_get_status =
        (\<lambda>r. Inr (Some [\<lparr>fault_code = ''F0123'',
                          external_identifier = ''uni/tn-t1/BD-bd1/fault-F0123''\<rparr>]))\<rparr>"

definition tenant_key :: key where
  "tenant_key = [''fvTenant|t1'']"

definition contract_key :: key where
  "contract_key = [''fvTenant|t1'', ''vzBrCP|c1'']"

section \<open>AimDbUniverse: optimized state\<close>

text \<open>
  The loop of \<open>get_optimized_state\<close> that fills the request dictionary, one served
  tenant after the other.
\<close>

fun request_loop ::
  "'t tree_lib \<Rightarrow> (tenant \<times> 't) list \<Rightarrow> tenant list \<Rightarrow> (tenant \<rightharpoonup> string option) \<Rightarrow>
   (tenant \<rightharpoonup> string option)" where
  "request_loop lib other_state [] request = request"
| "request_loop lib other_state (tenant # rest) request =
     (let request1 = request(tenant \<mapsto> None);
          request2 =
            (case map_of other_state tenant of
               None \<Rightarrow> request1
             | Some tree \<Rightarrow>
                 (case tl_root_full_hash lib tree of
                    Some h \<Rightarrow> request1(tenant \<mapsto> Some h)
                  | None \<Rightarrow> request1(tenant \<mapsto> None)))
      in request_loop lib other_state rest request2)"

text \<open>
  \<open>tree_manager.find_changed(context, request, operational)\<close> is external: the
  parameter \<open>find_changed\<close>.
\<close>

definition AimDbUniverse_get_optimized_state ::
  "'t tree_lib \<Rightarrow> (pyval \<Rightarrow> (tenant \<rightharpoonup> string option) \<Rightarrow> bool \<Rightarrow> (tenant \<times> 't) list) \<Rightarrow>
   't aimdb_universe \<Rightarrow> (tenant \<times> 't) list \<Rightarrow> bool \<Rightarrow> (tenant \<times> 't) list" where
  "AimDbUniverse_get_optimized_state lib find_changed self other_state operational =
     find_changed (aim_context self)
       (request_loop lib other_state (served_tenants self) Map.empty) operational"

definition AimDbOperationalUniverse_get_optimized_state ::
  "'t tree_lib \<Rightarrow> (pyval \<Rightarrow> (tenant \<rightharpoonup> string option) \<Rightarrow> bool \<Rightarrow> (tenant \<times> 't) list) \<Rightarrow>
   't aimdb_universe \<Rightarrow> (tenant \<times> 't) list \<Rightarrow> (tenant \<times> 't) list" where
  "AimDbOperationalUniverse_get_optimized_state lib find_changed self other_state =
     AimDbUniverse_get_optimized_state lib find_changed self other_state True"

text \<open>\<open>_get_state\<close>: every served tenant is requested with \<open>None\<close>.\<close>

definition get_state ::
  "(pyval \<Rightarrow> (tenant \<rightharpoonup> string option) \<Rightarrow> bool \<Rightarrow> (tenant \<times> 't) list) \<Rightarrow>
   't aimdb_universe \<Rightarrow> bool \<Rightarrow> (tenant \<times> 't) list" where
  "get_state find_changed self operational =
     find_changed (aim_context self)
       (map_of (map (\<lambda>x. (x, None)) (served_tenants self))) operational"

section \<open>AimDbUniverse: pushing resources\<close>

text \<open>
  The collaborators of \<open>push_resources\<close> are parameters: the converter, the DN manager
  (\<open>aci_decompose_with_type\<close>, and \<open>ManagedObjectClass(t).dn(...)\<close> as \<open>mo_dn\<close>), and
  whether the manager raises on a call, given the calls it has received before.
\<close>

record push_env =
  convert :: "pyobj list \<Rightarrow> exn + pyobj list"
  aci_decompose_with_type :: "string \<Rightarrow> string \<Rightarrow> exn + (string \<times> string) list"
  mo_dn :: "string \<Rightarrow> string list \<Rightarrow> exn + string"
  mgr_raises :: "mgr_call list \<Rightarrow> mgr_call \<Rightarrow> exn option"

definition retrieve_fault_parent :: "push_env \<Rightarrow> aci_fault \<Rightarrow> exn + pyobj" where
  "retrieve_fault_parent env fault =
     (case aci_decompose_with_type env (external_identifier fault) ACI_FAULT of
        Inl e \<Rightarrow> Inl e
      | Inr d \<Rightarrow>
          (let decomposed = butlast d
           in if decomposed = [] then Inl IndexError
              else (case mo_dn env (fst (last decomposed)) (map snd decomposed) of
                      Inl e \<Rightarrow> Inl e
                    | Inr dn \<Rightarrow>
                        (case convert env
                                [AciObject \<lparr>aci_type = fst (last decomposed),
                                            aci_attributes = [(''dn'', dn)]\<rparr>] of
                           Inl e \<Rightarrow> Inl e
                         | Inr [] \<Rightarrow> Inl IndexError
                         | Inr (parent # others) \<Rightarrow> Inr parent))))"

text \<open>The dictionary \<open>fault_method\<close>; a method outside it raises \<open>KeyError\<close>.\<close>

definition fault_method :: "string \<Rightarrow> (pyobj \<Rightarrow> pyobj \<Rightarrow> mgr_call) option" where
  "fault_method method =
     (if method = ''create'' then Some SetFault
      else if method = ''delete'' then Some ClearFault
      else None)"

text \<open>Reading \<open>__dict__\<close> works on an instance and raises on a plain dictionary.\<close>

fun has_dict :: "pyobj \<Rightarrow> bool" where
  "has_dict (Resource r) = True"
| "has_dict (AciFault f) = True"
| "has_dict (AciObject a) = False"

text \<open>
  For one converted resource: the manager call the loop body arrives at, or the
  exception raised before it.
\<close>

definition resource_call :: "push_env \<Rightarrow> string \<Rightarrow> pyobj \<Rightarrow> exn + mgr_call" where
  "resource_call env method resource =
     (case resource of
        AciFault f \<Rightarrow>
          (case retrieve_fault_parent env f of
             Inl e \<Rightarrow> Inl e
           | Inr parent \<Rightarrow>
               (case fault_method method of
                  None \<Rightarrow> Inl KeyError
                | Some fm \<Rightarrow>
                    if has_dict parent then Inr (fm parent resource) else Inl AttributeError))
      | _ \<Rightarrow>
          (case fault_method method of
             None \<Rightarrow> Inl KeyError
           | Some fm \<Rightarrow>
               if has_dict resource
               then Inr (if method = ''create'' then Create resource else Delete resource)
               else Inl AttributeError))"

text \<open>
  The inner loop over the converted resources.  The result is the manager's call list
  and the exception that ended the loop, if any; a call on which the manager raises
  has been received.
\<close>

fun push_converted ::
  "push_env \<Rightarrow> string \<Rightarrow> pyobj list \<Rightarrow> mgr_call list \<Rightarrow> mgr_call list \<times> exn option" where
  "push_converted env method [] calls = (calls, None)"
| "push_converted env method (resource # rest) calls =
     (case resource_call env method resource of
        Inl e \<Rightarrow> (calls, Some e)
      | Inr call \<Rightarrow>
          (case mgr_raises env calls call of
             Some e \<Rightarrow> (calls @ [call], Some e)
           | None \<Rightarrow> push_converted env method rest (calls @ [call])))"

text \<open>The body of the \<open>try\<close> for one item.\<close>

definition push_item ::
  "push_env \<Rightarrow> string \<Rightarrow> pyobj \<Rightarrow> mgr_call list \<Rightarrow> mgr_call list \<times> exn option" where
  "push_item env method item calls =
     (case (if method = ''delete'' then Inr [item] else convert env [item]) of
        Inl e \<Rightarrow> (calls, Some e)
      | Inr converted \<Rightarrow> push_converted env method converted calls)"

text \<open>
  The state of \<open>push_resources\<close>: the calls the manager has received and the errors
  logged, each with the method, the item and the exception.
\<close>

record push_state =
  ps_calls :: "mgr_call list"
  ps_errors :: "(string \<times> pyobj \<times> exn) list"

text \<open>One item with its \<open>try\<close> and \<open>except Exception\<close>.\<close>

definition push_one :: "push_env \<Rightarrow> string \<Rightarrow> pyobj \<Rightarrow> push_state \<Rightarrow> push_state" where
  "push_one env method item st =
     (case push_item env method item (ps_calls st) of
        (calls, None) \<Rightarrow> st\<lparr>ps_calls := calls\<rparr>
      | (calls, Some e) \<Rightarrow>
          st\<lparr>ps_calls := calls, ps_errors := ps_errors st @ [(method, item, e)]\<rparr>)"

fun push_items :: "push_env \<Rightarrow> string \<Rightarrow> pyobj list \<Rightarrow> push_state \<Rightarrow> push_state" where
  "push_items env method [] st = st"
| "push_items env method (item # rest) st =
     push_items env method rest (push_one env method item st)"

text \<open>
  \<open>push_resources\<close>; the dictionary \<open>resources\<close> is the list of its entries in the order
  in which Python enumerates them.
\<close>

fun push_resources ::
  "push_env \<Rightarrow> (string \<times> pyobj list) list \<Rightarrow> push_state \<Rightarrow> push_state" where
  "push_resources env [] st = st"
| "push_resources env ((method, items) # rest) st =
     push_resources env rest (push_items env method items st)"

text \<open>The items of a batch in the order in which they are processed.\<close>

definition batch_items :: "(string \<times> pyobj list) list \<Rightarrow> (string \<times> pyobj) list" where
  "batch_items resources = concat (map (\<lambda>(method, items). map (Pair method) items) resources)"

text \<open>
  What processing an item means, in the words of the specification: a delete item is
  taken as it is and any other item is converted; a fault is set on its parent
  (create) or cleared from it (delete), any other resource is created or deleted.
\<close>

definition applied_call :: "push_env \<Rightarrow> string \<Rightarrow> pyobj \<Rightarrow> mgr_call option" where
  "applied_call env method resource =
     (case resource of
        AciFault f \<Rightarrow>
          (case retrieve_fault_parent env f of
             Inl e \<Rightarrow> None
           | Inr parent \<Rightarrow>
               Some (if method = ''create'' then SetFault parent resource
                     else ClearFault parent resource))
      | _ \<Rightarrow> Some (if method = ''create'' then Create resource else Delete resource))"

definition applied_calls :: "push_env \<Rightarrow> string \<times> pyobj \<Rightarrow> mgr_call list" where
  "applied_calls env mi =
     (case (if fst mi = ''delete'' then Inr [snd mi] else convert env [snd mi]) of
        Inl e \<Rightarrow> []
      | Inr converted \<Rightarrow> List.map_filter (applied_call env (fst mi)) converted)"

text \<open>No item of the list raises when the items are processed one after the other.\<close>

fun no_item_raises :: "push_env \<Rightarrow> (string \<times> pyobj) list \<Rightarrow> mgr_call list \<Rightarrow> bool" where
  "no_item_raises env [] calls = True"
| "no_item_raises env ((method, item) # rest) calls =
     (case push_item env method item calls of
        (calls', None) \<Rightarrow> no_item_raises env rest calls'
      | (calls', Some e) \<Rightarrow> False)"

text \<open>The items of a batch processed one after the other, each with its own \<open>try\<close>.\<close>

fun push_flat :: "push_env \<Rightarrow> (string \<times> pyobj) list \<Rightarrow> push_state \<Rightarrow> push_state" where
  "push_flat env [] st = st"
| "push_flat env ((method, item) # rest) st = push_flat env rest (push_one env method item st)"

text \<open>
  An example environment: the converter turns a wire object of type \<open>fvBD\<close> into a
  bridge domain and raises on every other object; every DN decomposes into tenant,
  bridge domain and fault; the manager never raises.
\<close>

definition demo_push_env :: push_env where
  "demo_push_env =
     \<lparr>convert =
        (\<lambda>objs. case objs of
                  [AciObject a] \<Rightarrow>
                    if aci_type a = ''fvBD''
                    then Inr [Resource \<lparr>res_klass = ''BridgeDomain'',
                                        res_identity = aci_attributes a, res_other = []\<rparr>]
                    else Inl (OtherException ''no converter'')
                | _ \<Rightarrow> Inl (OtherException ''no converter'')),
      aci_decompose_with_type =
        (\<lambda>dn t. Inr [(''fvTenant'', ''t1''), (''fvBD'', ''bd1''), (t, ''F0123'')]),
      mo_dn = (\<lambda>t names. Inr ''uni/tn-t1/BD-bd1''),
      mgr_raises = (\<lambda>calls call. None)\<rparr>"

definition demo_bad_item :: pyobj where
  "demo_bad_item = AciObject \<lparr>aci_type = ''vzBrCP'', aci_attributes = [(''dn'', ''uni/tn-t1/brc-c1'')]\<rparr>"

definition demo_bd_item :: pyobj where
  "demo_bd_item = AciObject \<lparr>aci_type = ''fvBD'', aci_attributes = [(''dn'', ''uni/tn-t1/BD-bd2'')]\<rparr>"

definition demo_fault_item :: pyobj where
  "demo_fault_item =
     AciFault \<lparr>fault_code = ''F0123'', external_identifier = ''uni/tn-t1/BD-bd1/fault-F0123''\<rparr>"

definition demo_batch :: "(string \<times> pyobj list) list" where
  "demo_batch = [(''create'', [demo_bad_item, demo_bd_item]), (''delete'', [demo_fault_item])]"

definition push_start :: push_state where
  "push_start = \<lparr>ps_calls = [], ps_errors = []\<rparr>"

section \<open>AimDbUniverse as a universe object\<close>

text \<open>A method that returns a list: the list, or the exception.\<close>

definition returns_list :: "exn + pyobj list \<Rightarrow> exn + pyobj list option" where
  "returns_list r = (case r of Inl e \<Rightarrow> Inl e | Inr xs \<Rightarrow> Inr (Some xs))"

text \<open>
  The methods of an \<open>AimDbUniverse\<close> instance.  Its \<open>push_resources\<close> catches every
  exception of an item, so the call itself does not raise.
\<close>

definition AimDbUniverse_obj ::
  "'t tree_lib \<Rightarrow> (pyval \<Rightarrow> (tenant \<rightharpoonup> string option) \<Rightarrow> bool \<Rightarrow> (tenant \<times> 't) list) \<Rightarrow>
   aim_env \<Rightarrow> nat \<Rightarrow> 't aimdb_universe \<Rightarrow> 't universe_obj" where
  "AimDbUniverse_obj lib find_changed env i self =
     \<lparr>m_id = i,
      m_state = get_state find_changed self False,
      m_get_optimized_state =
        (\<lambda>other_state. AimDbUniverse_get_optimized_state lib find_changed self other_state False),
      m_get_resources = (\<lambda>ks. returns_list (AimDbUniverse_get_resources env ks)),
      m_get_resources_for_delete =
        (\<lambda>ks. returns_list (AimDbUniverse_get_resources_for_delete env ks)),
      m_push_resources = (\<lambda>b. None)\<rparr>"

section \<open>Verified properties\<close>

subsection \<open>Failure ledger\<close>

lemmas ledger_defs = creation_failed_def fail_aim_synchronization_def retry_until_max_def
  py_not_last_def Let_def

text \<open>
  C2, as stated, fails.  After the calls at 0, 11 and 22 the failure record of the object
  is cleared; the fourth call at 33 finds no record and writes a new one, (1, 33).  The
  fourth call therefore changes the failure ledger.
\<close>

theorem fourth_failure_not_noop:
  "failure_log (creation_failed_at scenario_universe scenario_object ''timeout'' [0, 11, 22])
     (get_aim_object_identifier scenario_object) = None \<and>
   failure_log (creation_failed_at scenario_universe scenario_object ''timeout'' [0, 11, 22, 33])
     (get_aim_object_identifier scenario_object) = Some (1, Some 33)"
  by (simp add: ledger_defs scenario_universe_def)

text \<open>
  C2, amended.  With \<open>max_operation_retry = 3\<close> and \<open>retry_cooldown = 10\<close>, for an object
  with no failure record, transient \<open>creation_failed\<close> calls at 0, 11, 22, 33 behave as
  follows: the first two only count (records (1, 0) and (2, 11), no manager call); the
  third marks the object \<open>sync_error\<close> (one \<open>set_resource_sync_error\<close> call with the
  reason) and leaves no failure record; the fourth does not mark the object again, but
  it starts a new failure record (1, 33).
\<close>

theorem retry_escalation:
  assumes "failure_log self (get_aim_object_identifier obj) = None"
    and "max_create_retry self = 3" and "retry_cooldown self = 10"
  shows "creation_failed_at self obj reason [0] =
           self\<lparr>failure_log := (failure_log self)(get_aim_object_identifier obj \<mapsto> (1, Some 0))\<rparr>
       \<and> creation_failed_at self obj reason [0, 11] =
           self\<lparr>failure_log := (failure_log self)(get_aim_object_identifier obj \<mapsto> (2, Some 11))\<rparr>
       \<and> creation_failed_at self obj reason [0, 11, 22] =
           self\<lparr>manager := manager self @ [SetResourceSyncError obj reason]\<rparr>
       \<and> creation_failed_at self obj reason [0, 11, 22, 33] =
           self\<lparr>manager := manager self @ [SetResourceSyncError obj reason],
                failure_log := (failure_log self)(get_aim_object_identifier obj \<mapsto> (1, Some 33))\<rparr>"
  using assms by (simp add: ledger_defs fun_upd_idem)

theorem retry_escalation_witness:
  "creation_failed_at scenario_universe scenario_object ''timeout'' [0] =
     scenario_universe\<lparr>failure_log := (failure_log scenario_universe)
       (get_aim_object_identifier scenario_object \<mapsto> (1, Some 0))\<rparr>
   \<and> creation_failed_at scenario_universe scenario_object ''timeout'' [0, 11] =
     scenario_universe\<lparr>failure_log := (failure_log scenario_universe)
       (get_aim_object_identifier scenario_object \<mapsto> (2, Some 11))\<rparr>
   \<and> creation_failed_at scenario_universe scenario_object ''timeout'' [0, 11, 22] =
     scenario_universe\<lparr>manager := manager scenario_universe @
       [SetResourceSyncError scenario_object ''timeout'']\<rparr>
   \<and> creation_failed_at scenario_universe scenario_object ''timeout'' [0, 11, 22, 33] =
     scenario_universe\<lparr>manager := manager scenario_universe @
       [SetResourceSyncError scenario_object ''timeout''],
       failure_log := (failure_log scenario_universe)
       (get_aim_object_identifier scenario_object \<mapsto> (1, Some 33))\<rparr>"
  by (rule retry_escalation) (simp_all add: scenario_universe_def)




text \<open>
  Why the time stamp must not be zero: the test \<open>not last\<close> reads a stored time 0 as
  "no time stored".  In a universe whose record carries the time stamp 0, a state that
  needs the clock to read exactly the epoch, a failure at time 5 would be counted.
\<close>

lemma zero_timestamp_reads_as_unset:
  "failure_log
     (creation_failed zero_stamp_universe 5 scenario_object ''timeout'' OPERATION_TRANSIENT)
     (get_aim_object_identifier scenario_object) = Some (2, Some 5)"
  by (simp add: ledger_defs zero_stamp_universe_def scenario_universe_def)

subsection \<open>Reconciliation\<close>

lemma diff_loop_eq:
  "set tenants \<subseteq> fst ` set other_state \<Longrightarrow>
   diff_loop lib my_state other_state tenants result =
     Inr (fst result @ concat (map (\<lambda>t. fst (tenant_diff lib my_state other_state t)) tenants),
          snd result @ concat (map (\<lambda>t. snd (tenant_diff lib my_state other_state t)) tenants))"
proof (induction tenants arbitrary: result)
  case Nil
  then show ?case by simp
next
  case (Cons t ts)
  from Cons.prems have "t \<in> fst ` set other_state" by simp
  then obtain tree where tr: "map_of other_state t = Some tree"
    by (metis domD dom_map_of_conv_image_fst)
  from Cons.prems have sub: "set ts \<subseteq> fst ` set other_state" by simp
  show ?case
    by (simp add: tr Cons.IH [OF sub] tenant_diff_def Let_def)
qed

lemma vote_loop_other:
  "t \<notin> fst ` set rest \<Longrightarrow>
   vote_loop lib self_id sd av other_state rest dc t = dc t"
  by (induction rest arbitrary: dc)
     (auto simp: vote_tenant_for_deletion_def discard_vote_def split: option.splits)

lemma vote_loop_at:
  assumes "distinct (map fst st)" and "(t, tree) \<in> set st" and "\<not> tl_has_root lib tree"
  shows "vote_loop lib self_id False False other_state st dc t =
           (if other_absent_or_empty lib other_state t
            then Some (insert self_id (votes_of dc t))
            else map_option (\<lambda>v. v - {self_id}) (dc t))"
  using assms
proof (induction st arbitrary: dc)
  case Nil
  then show ?case by simp
next
  case (Cons p rest)
  obtain t' tree' where p: "p = (t', tree')" by (cases p)
  show ?case
  proof (cases "t' = t")
    case True
    with Cons.prems p have same: "tree' = tree" and fresh: "t \<notin> fst ` set rest"
      by (auto simp: image_iff)
    show ?thesis
      using Cons.prems(3) True
      by (simp add: p same vote_loop_other [OF fresh] other_absent_or_empty_def
          vote_tenant_for_deletion_def discard_vote_def votes_of_def split: option.splits)
  next
    case False
    with Cons.prems p have d: "distinct (map fst rest)" and m: "(t, tree) \<in> set rest"
      by auto
    note ih = Cons.IH [OF d m Cons.prems(3)]
    from False show ?thesis
      by (simp add: p ih vote_tenant_for_deletion_def discard_vote_def votes_of_def
          split: option.splits)
  qed
qed

text \<open>
  C1.  Let \<open>tenants\<close> enumerate the intersection of the key sets of \<open>self.state\<close> and
  \<open>other.get_optimized_state(self.state)\<close>.  If the tree difference of every such tenant
  is empty in both parts, \<open>reconcile\<close> returns \<open>False\<close> and makes no \<open>push_resources\<close> call.
  Otherwise it hydrates the accumulated keys, the creations through
  \<open>other.get_resources\<close> and the deletions through \<open>self.get_resources_for_delete\<close>, makes
  exactly one \<open>push_resources\<close> call with the hydrated pair, and returns \<open>True\<close>.
\<close>

theorem reconcile_in_sync_or_push_once:
  assumes "set tenants =
             fst ` set (m_state self) \<inter>
             fst ` set (m_get_optimized_state other (m_state self))"
  shows "(let my_state = m_state self;
              other_state = m_get_optimized_state other my_state;
              creates = concat (map (\<lambda>t. fst (tenant_diff lib my_state other_state t)) tenants);
              deletes = concat (map (\<lambda>t. snd (tenant_diff lib my_state other_state t)) tenants);
              r = reconcile lib self other delete_votes tenants
          in ((\<forall>t \<in> set tenants. tenant_diff lib my_state other_state t = ([], [])) \<longrightarrow>
                returned r = Inr False \<and> pushed r = []) \<and>
             (\<not> (\<forall>t \<in> set tenants. tenant_diff lib my_state other_state t = ([], [])) \<longrightarrow>
                (\<forall>cs ds. m_get_resources other creates = Inr cs \<longrightarrow>
                   m_get_resources_for_delete self deletes = Inr ds \<longrightarrow>
                   m_push_resources self \<lparr>create = cs, delete = ds\<rparr> = None \<longrightarrow>
                   returned r = Inr True \<and> pushed r = [\<lparr>create = cs, delete = ds\<rparr>])))"
proof -
  let ?mine = "m_state self"
  let ?theirs = "m_get_optimized_state other ?mine"
  let ?td = "tenant_diff lib ?mine ?theirs"
  from assms have sub: "set tenants \<subseteq> fst ` set ?theirs" by simp
  have loop: "diff_loop lib ?mine ?theirs tenants ([], []) =
      Inr (concat (map (\<lambda>t. fst (?td t)) tenants), concat (map (\<lambda>t. snd (?td t)) tenants))"
    using diff_loop_eq [OF sub, of lib ?mine "([], [])"] by simp
  have empty_iff: "(concat (map (\<lambda>t. fst (?td t)) tenants) = [] \<and>
                    concat (map (\<lambda>t. snd (?td t)) tenants) = []) =
                   (\<forall>t \<in> set tenants. ?td t = ([], []))"
    by (auto simp: prod_eq_iff)
  show ?thesis
    unfolding Let_def reconcile_def reconcile_core_def loop
    using empty_iff by (auto simp: Let_def)
qed

text \<open>
  C3.  After one \<open>reconcile\<close> call (both flags unset), for a tenant \<open>t\<close> whose own tree
  has no root: when \<open>t\<close> is absent from the other universe's optimized state, or its tree
  there has no root either, self is a member of \<open>delete_votes[t]\<close>; otherwise self is not a
  member, and the vote set of \<open>t\<close>, if there was one, is the old one without self.
\<close>

theorem reconcile_votes_for_empty_tenant:
  assumes "distinct (map fst (m_state self))"
    and "set tenants =
           fst ` set (m_state self) \<inter>
           fst ` set (m_get_optimized_state other (m_state self))"
    and "(t, tree) \<in> set (m_state self)"
    and "\<not> tl_has_root lib tree"
  shows "(let other_state = m_get_optimized_state other (m_state self);
              r = reconcile lib self other delete_votes tenants
          in (other_absent_or_empty lib other_state t \<longrightarrow>
                m_id self \<in> votes_of (votes_after r) t) \<and>
             (\<not> other_absent_or_empty lib other_state t \<longrightarrow>
                m_id self \<notin> votes_of (votes_after r) t \<and>
                votes_after r t = map_option (\<lambda>v. v - {m_id self}) (delete_votes t)))"
proof -
  let ?mine = "m_state self"
  let ?theirs = "m_get_optimized_state other ?mine"
  from assms(2) have sub: "set tenants \<subseteq> fst ` set ?theirs" by simp
  have v: "votes_after (reconcile lib self other delete_votes tenants) =
           vote_loop lib (m_id self) False False ?theirs ?mine delete_votes"
    by (simp add: reconcile_def reconcile_core_def diff_loop_eq [OF sub] Let_def
        split: sum.splits option.splits)
  show ?thesis
    unfolding Let_def v
    by (auto simp: vote_loop_at [OF assms(1) assms(3) assms(4)] votes_of_def
        split: option.splits)
qed

lemmas demo_defs = demo_universe_def demo_lib_def demo_hydrate_def tenant_diff_def state_get_def
  HashTreeStoredUniverse_get_resources_for_delete_def other_absent_or_empty_def

theorem reconcile_in_sync_or_push_once_witness:
  "returned (reconcile demo_lib (demo_universe 1 [(''t1'', [bd_key])])
       (demo_universe 2 [(''t1'', [bd_key])]) Map.empty [''t1'']) = Inr False
   \<and> pushed (reconcile demo_lib (demo_universe 1 [(''t1'', [bd_key])])
       (demo_universe 2 [(''t1'', [bd_key])]) Map.empty [''t1'']) = []
   \<and> returned (reconcile demo_lib (demo_universe 1 [(''t1'', [])])
       (demo_universe 2 [(''t1'', [bd_key])]) Map.empty [''t1'']) = Inr True
   \<and> pushed (reconcile demo_lib (demo_universe 1 [(''t1'', [])])
       (demo_universe 2 [(''t1'', [bd_key])]) Map.empty [''t1'']) =
       [\<lparr>create = Some [AciObject \<lparr>aci_type = concat bd_key, aci_attributes = []\<rparr>],
         delete = None\<rparr>]"
proof -
  have h1: "set [''t1''] =
      fst ` set (m_state (demo_universe 1 [(''t1'', [bd_key])])) \<inter>
      fst ` set (m_get_optimized_state (demo_universe 2 [(''t1'', [bd_key])])
                   (m_state (demo_universe 1 [(''t1'', [bd_key])])))"
    by (simp add: demo_universe_def)
  have h2: "set [''t1''] =
      fst ` set (m_state (demo_universe 1 [(''t1'', [])])) \<inter>
      fst ` set (m_get_optimized_state (demo_universe 2 [(''t1'', [bd_key])])
                   (m_state (demo_universe 1 [(''t1'', [])])))"
    by (simp add: demo_universe_def)
  from reconcile_in_sync_or_push_once [OF h1, of demo_lib Map.empty]
  have a: "returned (reconcile demo_lib (demo_universe 1 [(''t1'', [bd_key])])
       (demo_universe 2 [(''t1'', [bd_key])]) Map.empty [''t1'']) = Inr False
   \<and> pushed (reconcile demo_lib (demo_universe 1 [(''t1'', [bd_key])])
       (demo_universe 2 [(''t1'', [bd_key])]) Map.empty [''t1'']) = []"
    by (simp add: Let_def demo_defs)
  from reconcile_in_sync_or_push_once [OF h2, of demo_lib Map.empty]
  have b: "returned (reconcile demo_lib (demo_universe 1 [(''t1'', [])])
       (demo_universe 2 [(''t1'', [bd_key])]) Map.empty [''t1'']) = Inr True
   \<and> pushed (reconcile demo_lib (demo_universe 1 [(''t1'', [])])
       (demo_universe 2 [(''t1'', [bd_key])]) Map.empty [''t1'']) =
       [\<lparr>create = Some [AciObject \<lparr>aci_type = concat bd_key, aci_attributes = []\<rparr>],
         delete = None\<rparr>]"
    by (simp add: Let_def demo_defs bd_key_def)
  from a b show ?thesis by simp
qed

theorem reconcile_votes_for_empty_tenant_witness:
  "votes_after (reconcile demo_lib (demo_universe 1 [(''t1'', [])])
       (demo_universe 2 [(''t1'', [bd_key])]) [''t1'' \<mapsto> {1, 2}] [''t1'']) ''t1'' = Some {2}
   \<and> 1 \<in> votes_of (votes_after (reconcile demo_lib (demo_universe 1 [(''t1'', [])])
       (demo_universe 2 []) Map.empty [])) ''t1''"
proof -
  have d: "distinct (map fst (m_state (demo_universe 1 [(''t1'', [])])))"
    by (simp add: demo_universe_def)
  have m: "(''t1'', []) \<in> set (m_state (demo_universe 1 [(''t1'', [])]))"
    by (simp add: demo_universe_def)
  have e: "\<not> tl_has_root demo_lib []" by (simp add: demo_lib_def)
  have h1: "set [''t1''] =
      fst ` set (m_state (demo_universe 1 [(''t1'', [])])) \<inter>
      fst ` set (m_get_optimized_state (demo_universe 2 [(''t1'', [bd_key])])
                   (m_state (demo_universe 1 [(''t1'', [])])))"
    by (simp add: demo_universe_def)
  have h2: "set [] =
      fst ` set (m_state (demo_universe 1 [(''t1'', [])])) \<inter>
      fst ` set (m_get_optimized_state (demo_universe 2 [])
                   (m_state (demo_universe 1 [(''t1'', [])])))"
    by (simp add: demo_universe_def)
  from reconcile_votes_for_empty_tenant [OF d h1 m e, of "[''t1'' \<mapsto> {1, 2}]"]
  have a: "votes_after (reconcile demo_lib (demo_universe 1 [(''t1'', [])])
       (demo_universe 2 [(''t1'', [bd_key])]) [''t1'' \<mapsto> {1, 2}] [''t1'']) ''t1'' = Some {2}"
    by (simp add: Let_def demo_defs bd_key_def insert_Diff_if)
  from reconcile_votes_for_empty_tenant [OF d h2 m e, of Map.empty]
  have b: "1 \<in> votes_of (votes_after (reconcile demo_lib (demo_universe 1 [(''t1'', [])])
       (demo_universe 2 []) Map.empty [])) ''t1''"
    by (simp add: Let_def demo_defs)
  from a b show ?thesis by simp
qed

subsection \<open>Initialization and single-key lookups\<close>

lemma HashTreeStoredUniverse_initialize_ok:
  "HashTreeStoredUniverse_initialize self [store, ConfObj c] =
     Inr (self\<lparr>aim_context := store, manager := [], conf_manager := c,
               u_state := [], failure_log := Map.empty,
               max_create_retry := c ''max_operation_retry'' ''aim'',
               retry_cooldown := c ''retry_cooldown'' ''aim''\<rparr>)"
  by (simp add: HashTreeStoredUniverse_initialize_def)

text \<open>
  C8 on the code: \<open>AimDbUniverse.initialize\<close> raises \<open>TypeError\<close> for every argument list.
  With the two arguments (store, configuration) of the documented signature the call
  does not fit its one-parameter signature; with one argument it passes that single
  argument on to the two-parameter \<open>initialize\<close> of the parent class.
\<close>

theorem AimDbUniverse_initialize_raises:
  "AimDbUniverse_initialize self args = Inl TypeError"
  by (simp add: AimDbUniverse_initialize_def HashTreeStoredUniverse_initialize_def
      split: list.splits)

text \<open>
  C9.  For every universe object, whatever its class overrides, \<open>get_resource(k)\<close> is
  \<open>get_resources([k])\<close> and \<open>get_resource_for_delete(k)\<close> is
  \<open>get_resources_for_delete([k])\<close>: the value is what the batch method returns for the
  one-element list, not a single resource.  For an \<open>AimDbUniverse\<close> both are the list
  (or the exception) of \<open>get_resources([k])\<close>.
\<close>

theorem single_key_is_batch_of_one:
  "get_resource self k = m_get_resources self [k] \<and>
   get_resource_for_delete self k = m_get_resources_for_delete self [k] \<and>
   get_resource (AimDbUniverse_obj lib find_changed env i u) k =
     returns_list (AimDbUniverse_get_resources env [k]) \<and>
   get_resource_for_delete (AimDbUniverse_obj lib find_changed env i u) k =
     returns_list (AimDbUniverse_get_resources env [k])"
  by (simp add: get_resource_def get_resource_for_delete_def AimDbUniverse_obj_def
      AimDbUniverse_get_resources_for_delete_def)

subsection \<open>Hydrating keys\<close>

lemmas hydrate_defs = AimDbUniverse_get_resources_def get_resources_step_def key_identity_def
  lookup_resource_def dissect_key_def py_slice_to_def py_slice_from_def ACI_FAULT_def
  fault_code_set_def hydration_start_def demo_env_def bd_key_def tenant_key_def
  contract_key_def Let_def


text \<open>
  C5, as stated, fails.  A key whose dissected type has no entry in the converter's
  resource map raises \<open>KeyError\<close> at the lookup, which lies outside the \<open>try\<close>; the whole
  call fails, although the other key of the batch alone hydrates.
\<close>

theorem unknown_aci_type_fails_batch:
  "AimDbUniverse_get_resources demo_env [contract_key, bd_key] = Inl KeyError \<and>
   AimDbUniverse_get_resources demo_env [bd_key] =
     Inr [Resource \<lparr>res_klass = ''BridgeDomain'',
                     res_identity = [(''tenant_name'', ''t1''), (''name'', ''bd1'')],
                     res_other = []\<rparr>]"
  by (simp add: hydrate_defs)

lemma get_resources_step_cases:
  assumes "get_resources_step env k st = Inr st1"
  shows "st1 = st \<or>
         (\<exists>t ob. key_id_tuple env k = Some t \<and> t \<notin> h_id_set st \<and>
                 key_object env k = Some ob \<and>
                 h_result st1 = h_result st @ [ob] \<and>
                 h_id_set st1 = insert t (h_id_set st))"
  using assms
  by (auto simp: get_resources_step_def key_id_tuple_def key_object_def
      split: sum.splits option.splits if_splits)

lemma get_resources_loop_subseq:
  assumes "get_resources_loop env keys st = Inr st'"
  shows "\<exists>ks. subseq ks keys \<and> distinct (map (key_id_tuple env) ks) \<and>
              (\<forall>k \<in> set ks. \<exists>t. key_id_tuple env k = Some t \<and> t \<notin> h_id_set st) \<and>
              map Some (h_result st') = map Some (h_result st) @ map (key_object env) ks"
  using assms
proof (induction keys arbitrary: st)
  case Nil
  then show ?case by auto
next
  case (Cons k keys)
  from Cons.prems obtain st1 where
    step: "get_resources_step env k st = Inr st1" and
    rest: "get_resources_loop env keys st1 = Inr st'"
    by (auto split: sum.splits)
  from Cons.IH [OF rest] obtain ks where
    ks: "subseq ks keys" "distinct (map (key_id_tuple env) ks)"
        "\<forall>k \<in> set ks. \<exists>t. key_id_tuple env k = Some t \<and> t \<notin> h_id_set st1"
        "map Some (h_result st') = map Some (h_result st1) @ map (key_object env) ks"
    by blast
  from get_resources_step_cases [OF step] show ?case
  proof
    assume "st1 = st"
    with ks show ?thesis
      by (intro exI [of _ ks]) (auto intro: subseq_Cons')
  next
    assume "\<exists>t ob. key_id_tuple env k = Some t \<and> t \<notin> h_id_set st \<and>
                 key_object env k = Some ob \<and>
                 h_result st1 = h_result st @ [ob] \<and>
                 h_id_set st1 = insert t (h_id_set st)"
    then obtain t ob where
      a: "key_id_tuple env k = Some t" "t \<notin> h_id_set st" "key_object env k = Some ob"
         "h_result st1 = h_result st @ [ob]" "h_id_set st1 = insert t (h_id_set st)"
      by blast
    have fresh: "key_id_tuple env k \<notin> key_id_tuple env ` set ks"
    proof
      assume "key_id_tuple env k \<in> key_id_tuple env ` set ks"
      then obtain k' where "k' \<in> set ks" "key_id_tuple env k' = Some t"
        using a(1) by auto
      with ks(3) a(5) show False by auto
    qed
    show ?thesis
      using ks a fresh
      by (intro exI [of _ "k # ks"]) auto
  qed
qed

text \<open>
  C7.  When \<open>get_resources(keys)\<close> returns, its result comes from a subsequence of the
  keys whose identity tuples (identity attributes, extended with the fault code for a
  fault key) are pairwise distinct, one object per key of the subsequence: two keys with
  the same identity tuple contribute at most one object.
\<close>

theorem get_resources_distinct_identities:
  assumes "AimDbUniverse_get_resources env keys = Inr rs"
  shows "\<exists>ks. subseq ks keys \<and> distinct (map (key_id_tuple env) ks) \<and>
              (\<forall>k \<in> set ks. key_id_tuple env k \<noteq> None) \<and>
              map Some rs = map (key_object env) ks"
proof -
  from assms obtain st' where
    l: "get_resources_loop env keys hydration_start = Inr st'" and r: "rs = h_result st'"
    by (auto simp: AimDbUniverse_get_resources_def split: sum.splits)
  from get_resources_loop_subseq [OF l] obtain ks where
    "subseq ks keys" "distinct (map (key_id_tuple env) ks)"
    "\<forall>k \<in> set ks. \<exists>t. key_id_tuple env k = Some t \<and> t \<notin> h_id_set hydration_start"
    "map Some (h_result st') = map Some (h_result hydration_start) @ map (key_object env) ks"
    by blast
  then show ?thesis
    unfolding r by (intro exI [of _ ks]) (auto simp: hydration_start_def)
qed


lemma get_resources_loop_append:
  "get_resources_loop env (xs @ ys) st =
     (case get_resources_loop env xs st of
        Inl e \<Rightarrow> Inl e
      | Inr s \<Rightarrow> get_resources_loop env ys s)"
  by (induction xs arbitrary: st) (auto split: sum.splits)

lemma get_resources_loop_id_set:
  "get_resources_loop env keys st = Inr st' \<Longrightarrow>
   h_id_set st' \<subseteq> h_id_set st \<union> {t. Some t \<in> key_id_tuple env ` set keys}"
proof (induction keys arbitrary: st)
  case Nil
  then show ?case by simp
next
  case (Cons k keys)
  from Cons.prems obtain st1 where
    step: "get_resources_step env k st = Inr st1" and
    rest: "get_resources_loop env keys st1 = Inr st'"
    by (auto split: sum.splits)
  from get_resources_step_cases [OF step]
  have "h_id_set st1 \<subseteq> h_id_set st \<union> {t. Some t = key_id_tuple env k}"
    by auto
  with Cons.IH [OF rest] show ?case by auto
qed

lemma get_resources_loop_mono:
  "get_resources_loop env keys st = Inr st' \<Longrightarrow>
   set (h_result st) \<subseteq> set (h_result st') \<and> set (h_warnings st) \<subseteq> set (h_warnings st')"
proof (induction keys arbitrary: st)
  case Nil
  then show ?case by simp
next
  case (Cons k keys)
  from Cons.prems obtain st1 where
    step: "get_resources_step env k st = Inr st1" and
    rest: "get_resources_loop env keys st1 = Inr st'"
    by (auto split: sum.splits)
  from step have "set (h_result st) \<subseteq> set (h_result st1) \<and>
                  set (h_warnings st) \<subseteq> set (h_warnings st1)"
    by (auto simp: get_resources_step_def split: sum.splits option.splits if_splits)
  with Cons.IH [OF rest] show ?case by blast
qed

lemma get_resources_step_handled:
  "key_handled env k \<Longrightarrow> \<exists>st1. get_resources_step env k st = Inr st1"
  by (auto simp: key_handled_def get_resources_step_def split: sum.splits option.splits)

lemma get_resources_loop_handled:
  "\<forall>k \<in> set keys. key_handled env k \<Longrightarrow> \<exists>st'. get_resources_loop env keys st = Inr st'"
proof (induction keys arbitrary: st)
  case Nil
  then show ?case by simp
next
  case (Cons k keys)
  from Cons.prems have "key_handled env k" by simp
  from get_resources_step_handled [OF this] obtain st1 where
    "get_resources_step env k st = Inr st1" by blast
  moreover from Cons.prems have "\<forall>k \<in> set keys. key_handled env k" by simp
  ultimately show ?case using Cons.IH [of st1] by simp
qed

lemma get_resources_step_fresh:
  assumes "get_resources_step env k st = Inr st1"
    and "key_identity env k = Inr ki" and "ki_id_tuple ki \<notin> h_id_set st"
    and "key_object env k = Some ob"
  shows "ob \<in> set (h_result st1)"
  using assms
  by (auto simp: get_resources_step_def key_object_def
      split: sum.splits option.splits if_splits)

lemma get_resources_step_unknown:
  assumes "key_identity env k = Inr ki" and "ki_id_tuple ki \<notin> h_id_set st"
    and "lookup_resource env (ki_res ki) (ki_fault_code ki) = Inl UnknownResourceType"
  shows "get_resources_step env k st =
           Inr (st\<lparr>h_result := h_result st @ [Resource (ki_res ki)],
                   h_id_set := insert (ki_id_tuple ki) (h_id_set st),
                   h_warnings := h_warnings st @ [ki_dissected ki]\<rparr>)"
  using assms by (simp add: get_resources_step_def)

text \<open>
  C5, amended.  If every key of the batch dissects to a type of the resource map, with
  enough identity values, and the manager raises nothing but \<open>UnknownResourceType\<close>, then
  \<open>get_resources\<close> returns a list.  Every key that is the first of the batch with its
  identity tuple contributes its object; when the manager raises \<open>UnknownResourceType\<close>
  for it, that object is the identity-only resource, and a warning with the dissected
  key is logged.
\<close>

theorem unknown_resource_type_passes_through:
  assumes "\<forall>k \<in> set keys. key_handled env k"
  shows "\<exists>st'. get_resources_loop env keys hydration_start = Inr st' \<and>
           AimDbUniverse_get_resources env keys = Inr (h_result st') \<and>
           (\<forall>ks1 k ks2 ki. keys = ks1 @ k # ks2 \<longrightarrow>
              key_identity env k = Inr ki \<longrightarrow>
              key_id_tuple env k \<notin> key_id_tuple env ` set ks1 \<longrightarrow>
              (\<forall>ob. key_object env k = Some ob \<longrightarrow> ob \<in> set (h_result st')) \<and>
              (lookup_resource env (ki_res ki) (ki_fault_code ki) = Inl UnknownResourceType \<longrightarrow>
                 Resource (ki_res ki) \<in> set (h_result st') \<and>
                 ki_dissected ki \<in> set (h_warnings st')))"
proof -
  from get_resources_loop_handled [OF assms] obtain st' where
    l: "get_resources_loop env keys hydration_start = Inr st'" by blast
  have main: "(\<forall>ob. key_object env k = Some ob \<longrightarrow> ob \<in> set (h_result st')) \<and>
        (lookup_resource env (ki_res ki) (ki_fault_code ki) = Inl UnknownResourceType \<longrightarrow>
           Resource (ki_res ki) \<in> set (h_result st') \<and>
           ki_dissected ki \<in> set (h_warnings st'))"
    if split: "keys = ks1 @ k # ks2" and ki: "key_identity env k = Inr ki"
      and first: "key_id_tuple env k \<notin> key_id_tuple env ` set ks1"
    for ks1 k ks2 ki
  proof -
    from l split obtain s1 s2 where
      l1: "get_resources_loop env ks1 hydration_start = Inr s1" and
      st: "get_resources_step env k s1 = Inr s2" and
      l2: "get_resources_loop env ks2 s2 = Inr st'"
      by (auto simp: get_resources_loop_append split: sum.splits)
    from get_resources_loop_id_set [OF l1] first ki
    have fresh: "ki_id_tuple ki \<notin> h_id_set s1"
      by (auto simp: hydration_start_def key_id_tuple_def)
    note mono = get_resources_loop_mono [OF l2]
    have a: "\<forall>ob. key_object env k = Some ob \<longrightarrow> ob \<in> set (h_result st')"
      using get_resources_step_fresh [OF st ki fresh] mono by blast
    have b: "Resource (ki_res ki) \<in> set (h_result st') \<and>
             ki_dissected ki \<in> set (h_warnings st')"
      if u: "lookup_resource env (ki_res ki) (ki_fault_code ki) = Inl UnknownResourceType"
    proof -
      from st get_resources_step_unknown [OF ki fresh u]
      have "Resource (ki_res ki) \<in> set (h_result s2) \<and>
            ki_dissected ki \<in> set (h_warnings s2)"
        by auto
      with mono show ?thesis by blast
    qed
    from a b show ?thesis by blast
  qed
  from l have "AimDbUniverse_get_resources env keys = Inr (h_result st')"
    by (simp add: AimDbUniverse_get_resources_def)
  with l main show ?thesis by blast
qed

theorem unknown_resource_type_passes_through_witness:
  "AimDbUniverse_get_resources demo_env [bd_key, tenant_key] =
     Inr [Resource \<lparr>res_klass = ''BridgeDomain'',
                     res_identity = [(''tenant_name'', ''t1''), (''name'', ''bd1'')],
                     res_other = []\<rparr>,
          Resource \<lparr>res_klass = ''Tenant'', res_identity = [(''name'', ''t1'')],
                     res_other = [(''display_name'', ''shown'')]\<rparr>]"
proof -
  have h: "\<forall>k \<in> set [bd_key, tenant_key]. key_handled demo_env k"
    by (simp add: key_handled_def hydrate_defs)
  from unknown_resource_type_passes_through [OF h] obtain st' where
    l: "get_resources_loop demo_env [bd_key, tenant_key] hydration_start = Inr st'" and
    r: "AimDbUniverse_get_resources demo_env [bd_key, tenant_key] = Inr (h_result st')"
    by blast
  from l have "h_result st' =
     [Resource \<lparr>res_klass = ''BridgeDomain'',
                 res_identity = [(''tenant_name'', ''t1''), (''name'', ''bd1'')],
                 res_other = []\<rparr>,
      Resource \<lparr>res_klass = ''Tenant'', res_identity = [(''name'', ''t1'')],
                 res_other = [(''display_name'', ''shown'')]\<rparr>]"
    by (auto simp: hydrate_defs)
  with r show ?thesis by simp
qed

theorem get_resources_distinct_identities_witness:
  "\<exists>ks. subseq ks [bd_key, bd_key, tenant_key] \<and>
        distinct (map (key_id_tuple demo_env) ks) \<and>
        (\<forall>k \<in> set ks. key_id_tuple demo_env k \<noteq> None) \<and>
        map Some [Resource \<lparr>res_klass = ''BridgeDomain'',
                     res_identity = [(''tenant_name'', ''t1''), (''name'', ''bd1'')],
                     res_other = []\<rparr>,
          Resource \<lparr>res_klass = ''Tenant'', res_identity = [(''name'', ''t1'')],
                     res_other = [(''display_name'', ''shown'')]\<rparr>] =
        map (key_object demo_env) ks"
proof -
  have h: "AimDbUniverse_get_resources demo_env [bd_key, bd_key, tenant_key] =
     Inr [Resource \<lparr>res_klass = ''BridgeDomain'',
                     res_identity = [(''tenant_name'', ''t1''), (''name'', ''bd1'')],
                     res_other = []\<rparr>,
          Resource \<lparr>res_klass = ''Tenant'', res_identity = [(''name'', ''t1'')],
                     res_other = [(''display_name'', ''shown'')]\<rparr>]"
    by (simp add: hydrate_defs)
  show ?thesis by (rule get_resources_distinct_identities [OF h])
qed

subsection \<open>Optimized state\<close>

lemma request_loop_eq:
  "request_loop lib other_state tenants request =
     (\<lambda>t. if t \<in> set tenants
          then Some (case map_of other_state t of
                       None \<Rightarrow> None
                     | Some tree \<Rightarrow> tl_root_full_hash lib tree)
          else request t)"
proof (induction tenants arbitrary: request)
  case Nil
  then show ?case by simp
next
  case (Cons a tenants)
  show ?case
    by (rule ext) (simp add: Cons.IH Let_def split: option.splits)
qed

text \<open>
  C10.  The request that \<open>AimDbUniverse.get_optimized_state(other_state)\<close> hands to
  \<open>find_changed\<close> has an entry exactly for the served tenants: a served tenant is
  requested with the \<open>root_full_hash\<close> of its tree in \<open>other_state\<close>, or with \<open>None\<close> when
  it is absent from \<open>other_state\<close> or its tree has no \<open>root_full_hash\<close>; a tenant that is
  not served has no entry, whether \<open>other_state\<close> holds it or not.  After \<open>serve(tenants)\<close>
  the served tenants are the given ones.
\<close>

theorem get_optimized_state_requests_served_tenants:
  "AimDbUniverse_get_optimized_state lib find_changed self other_state operational =
     find_changed (aim_context self)
       (\<lambda>t. if t \<in> set (served_tenants self)
            then Some (case map_of other_state t of
                         None \<Rightarrow> None
                       | Some tree \<Rightarrow> tl_root_full_hash lib tree)
            else None) operational
   \<and> set (served_tenants (serve self tenants)) = set tenants"
  by (simp add: AimDbUniverse_get_optimized_state_def request_loop_eq serve_def)

subsection \<open>Pushing resources\<close>

lemma push_converted_ok:
  "push_converted env method converted calls = (calls', None) \<Longrightarrow>
   calls' = calls @ List.map_filter (applied_call env method) converted"
proof (induction converted arbitrary: calls)
  case Nil
  then show ?case by (simp add: map_filter_simps)
next
  case (Cons r rs)
  from Cons.prems obtain call where
    rc: "resource_call env method r = Inr call" and
    nr: "mgr_raises env calls call = None" and
    rest: "push_converted env method rs (calls @ [call]) = (calls', None)"
    by (auto split: sum.splits option.splits)
  from rc have ac: "applied_call env method r = Some call"
    by (auto simp: resource_call_def applied_call_def fault_method_def
        split: pyobj.splits sum.splits option.splits if_splits)
  from Cons.IH [OF rest] ac show ?case by (simp add: map_filter_simps)
qed

lemma push_item_ok:
  "push_item env method item calls = (calls', None) \<Longrightarrow>
   calls' = calls @ applied_calls env (method, item)"
  by (auto simp: push_item_def applied_calls_def dest: push_converted_ok
      split: sum.splits if_splits)

lemma push_flat_append:
  "push_flat env (xs @ ys) st = push_flat env ys (push_flat env xs st)"
  by (induction xs arbitrary: st) auto

lemma push_items_flat:
  "push_items env method items st = push_flat env (map (Pair method) items) st"
  by (induction items arbitrary: st) auto

lemma push_resources_flat:
  "push_resources env resources st = push_flat env (batch_items resources) st"
  by (induction resources arbitrary: st)
     (auto simp: batch_items_def push_items_flat push_flat_append)

lemma push_flat_ok:
  "no_item_raises env xs (ps_calls st) \<Longrightarrow>
   push_flat env xs st = st\<lparr>ps_calls := ps_calls st @ concat (map (applied_calls env) xs)\<rparr>"
proof (induction xs arbitrary: st)
  case Nil
  then show ?case by simp
next
  case (Cons x xs)
  obtain m i where x: "x = (m, i)" by (cases x)
  from Cons.prems x obtain calls' where
    pi: "push_item env m i (ps_calls st) = (calls', None)" and
    rest: "no_item_raises env xs calls'"
    by (auto split: prod.splits option.splits)
  from push_item_ok [OF pi] have c: "calls' = ps_calls st @ applied_calls env (m, i)" .
  have one: "push_one env m i st = st\<lparr>ps_calls := calls'\<rparr>"
    by (simp add: push_one_def pi)
  from rest have "no_item_raises env xs (ps_calls (st\<lparr>ps_calls := calls'\<rparr>))" by simp
  from Cons.IH [OF this] show ?case
    by (simp add: x one c)
qed

text \<open>
  C6.  Let the items of one \<open>push_resources\<close> call, in processing order, be \<open>xs\<close>, then
  \<open>(m, bad)\<close>, then \<open>ys\<close>, where \<open>bad\<close> raises \<open>e\<close> and no item of \<open>xs\<close> or \<open>ys\<close> raises.
  Then the call returns; exactly the one error (method, item, exception) is logged;
  and the manager has received, besides the calls made for \<open>bad\<close> before it raised, all
  the calls of every other item: each one converted (unless deleted) and applied through
  create, delete, set_fault or clear_fault.
\<close>

theorem push_resources_batch_resilient:
  assumes "batch_items resources = xs @ (m, bad) # ys"
    and "no_item_raises env xs (ps_calls st)"
    and "push_item env m bad (ps_calls st @ concat (map (applied_calls env) xs)) =
           (calls_bad, Some e)"
    and "no_item_raises env ys calls_bad"
  shows "push_resources env resources st =
           \<lparr>ps_calls = calls_bad @ concat (map (applied_calls env) ys),
            ps_errors = ps_errors st @ [(m, bad, e)]\<rparr>"
proof -
  let ?s1 = "st\<lparr>ps_calls := ps_calls st @ concat (map (applied_calls env) xs)\<rparr>"
  let ?s2 = "\<lparr>ps_calls = calls_bad, ps_errors = ps_errors st @ [(m, bad, e)]\<rparr>"
  have a: "push_flat env xs st = ?s1" by (rule push_flat_ok [OF assms(2)])
  have b: "push_one env m bad ?s1 = ?s2"
    using assms(3) by (simp add: push_one_def)
  from assms(4) have "no_item_raises env ys (ps_calls ?s2)" by simp
  from push_flat_ok [OF this] have c: "push_flat env ys ?s2 =
      \<lparr>ps_calls = calls_bad @ concat (map (applied_calls env) ys),
       ps_errors = ps_errors st @ [(m, bad, e)]\<rparr>" by simp
  show ?thesis
    by (simp add: push_resources_flat assms(1) push_flat_append a b c)
qed


lemmas push_defs = push_item_def push_one_def resource_call_def retrieve_fault_parent_def
  fault_method_def applied_calls_def applied_call_def batch_items_def demo_push_env_def
  demo_bad_item_def demo_bd_item_def demo_fault_item_def demo_batch_def push_start_def
  ACI_FAULT_def map_filter_simps Let_def


theorem push_resources_batch_resilient_witness:
  "push_resources demo_push_env demo_batch push_start =
     \<lparr>ps_calls =
        [Create (Resource \<lparr>res_klass = ''BridgeDomain'',
                           res_identity = [(''dn'', ''uni/tn-t1/BD-bd2'')], res_other = []\<rparr>),
         ClearFault
           (Resource \<lparr>res_klass = ''BridgeDomain'',
                      res_identity = [(''dn'', ''uni/tn-t1/BD-bd1'')], res_other = []\<rparr>)
           demo_fault_item],
      ps_errors = [(''create'', demo_bad_item, OtherException ''no converter'')]\<rparr>"
proof -
  have h1: "batch_items demo_batch =
      [] @ (''create'', demo_bad_item) # [(''create'', demo_bd_item), (''delete'', demo_fault_item)]"
    by (simp add: batch_items_def demo_batch_def)
  have h2: "no_item_raises demo_push_env [] (ps_calls push_start)" by simp
  have h3: "push_item demo_push_env ''create'' demo_bad_item
      (ps_calls push_start @ concat (map (applied_calls demo_push_env) [])) =
      ([], Some (OtherException ''no converter''))"
    by (simp add: push_item_def demo_push_env_def demo_bad_item_def push_start_def)
  have h4: "no_item_raises demo_push_env
      [(''create'', demo_bd_item), (''delete'', demo_fault_item)] []"
    by (simp add: push_defs)
  from push_resources_batch_resilient [OF h1 h2 h3 h4]
  show ?thesis
    by (simp add: applied_calls_def applied_call_def retrieve_fault_parent_def
        demo_push_env_def demo_bd_item_def demo_fault_item_def push_start_def
        ACI_FAULT_def map_filter_simps)
qed

end
